theory Spec2Isabelle
  imports Complex_Main "HOL-Library.Sublist"
begin

section \<open>Video + Music Merger: a model of main.py\<close>

text \<open>
  The program is a thin layer over MoviePy, FFmpeg and Qt. The model keeps the program's
  own control flow and treats what it calls as the environment:
  \<^item> a Python exception is a value of \<open>exn\<close>, an instance of \<open>Exception\<close> as the program
    and MoviePy raise them; a call that may raise returns \<open>exn + 'a\<close> with \<open>Inl\<close> the
    exception raised;
  \<^item> the MoviePy build in use is a record of the operations the program calls on it,
    over a type \<open>'v\<close> of video clips and a type \<open>'c\<close> of audio clips;
  \<^item> a Python float is a \<open>real\<close> (finite values only; \<open>level - 1.0\<close> is exact in
    floating point wherever it is near zero, so the comparison against the epsilon reads the
    same over the reals, with the epsilon taken as the real \<open>1 / 10 ^ 9\<close>);
  \<^item> what the worker does to the outside is a list of events, in the order they happen: the
    Qt signals it emits and the file operations it asks MoviePy for. Emitting a signal
    does not raise.
\<close>

subsection \<open>Exceptions\<close>

datatype exn =
    RuntimeError string
  | FileNotFoundError string
  | OtherException string

text \<open>\<open>str(e)\<close> of an exception built from one message.\<close>

fun str :: "exn \<Rightarrow> string" where
  "str (RuntimeError m) = m"
| "str (FileNotFoundError m) = m"
| "str (OtherException m) = m"

subsection \<open>Locating FFmpeg (lines 23-64)\<close>

text \<open>
  What the locator reads from the operating system: the result of
  \<open>shutil.which("ffmpeg")\<close>, the result of \<open>imageio_ffmpeg.get_ffmpeg_exe()\<close> and
  \<open>os.path.exists\<close>.
\<close>

record os_env =
  shutil_which :: "string option"
  get_ffmpeg_exe :: "exn + string"
  os_path_exists :: "string \<Rightarrow> bool"

text \<open>
  The global \<open>ENGINE\<close> is a string with three values. The function returns the new
  value of the global together with its own result: the path, or the exception raised.
\<close>

definition no_ffmpeg_found :: "string \<times> (exn + string)" where
  "no_ffmpeg_found =
     (''disabled'',
      Inl (FileNotFoundError
        ''No FFmpeg executable found. Install FFmpeg or keep 'imageio-ffmpeg' installed.''))"

definition bundled_ffmpeg :: "os_env \<Rightarrow> string \<times> (exn + string)" where
  "bundled_ffmpeg os =
     (case get_ffmpeg_exe os of
        Inl e \<Rightarrow> no_ffmpeg_found
      | Inr ffmpeg_path \<Rightarrow>
          if os_path_exists os ffmpeg_path then (''bundled-ffmpeg'', Inr ffmpeg_path)
          else no_ffmpeg_found)"

definition ensure_ffmpeg_available :: "os_env \<Rightarrow> string \<times> (exn + string)" where
  "ensure_ffmpeg_available os =
     (case shutil_which os of
        None \<Rightarrow> bundled_ffmpeg os
      | Some ffmpeg_path \<Rightarrow>
          if ffmpeg_path \<noteq> [] then (''system-ffmpeg'', Inr ffmpeg_path)
          else bundled_ffmpeg os)"

text \<open>
  The module's globals after lines 60-64: \<open>ENGINE\<close>, \<open>FFMPEG_ERROR\<close> and the
  environment variable \<open>IMAGEIO_FFMPEG_EXE\<close> (given its value before the module loads).
\<close>

record globals =
  ENGINE :: string
  FFMPEG_ERROR :: "string option"
  IMAGEIO_FFMPEG_EXE :: "string option"

definition module_load :: "os_env \<Rightarrow> string option \<Rightarrow> globals" where
  "module_load os environ =
     (case ensure_ffmpeg_available os of
        (engine, Inr ffmpeg_path) \<Rightarrow>
          \<lparr>ENGINE = engine, FFMPEG_ERROR = None, IMAGEIO_FFMPEG_EXE = Some ffmpeg_path\<rparr>
      | (engine, Inl e) \<Rightarrow>
          \<lparr>ENGINE = engine, FFMPEG_ERROR = Some (str e), IMAGEIO_FFMPEG_EXE = environ\<rparr>)"

text \<open>
  Lines 66-67: \<open>from moviepy import ...\<close> runs after the \<open>try\<close> of lines 61-64 and
  outside it, so an exception it raises ends the loading of the module. What the import
  does belongs to MoviePy; it is given the globals as lines 60-64 left them.
\<close>

definition module_body ::
  "os_env \<Rightarrow> string option \<Rightarrow> (globals \<Rightarrow> exn option) \<Rightarrow> exn + globals" where
  "module_body os environ import_moviepy =
     (case import_moviepy (module_load os environ) of
        Some e \<Rightarrow> Inl e
      | None \<Rightarrow> Inr (module_load os environ))"

subsection \<open>The MoviePy build\<close>

text \<open>
  A frame of audio is one value per channel; a clip's frames are a function of time.
  \<open>clip.fl\<close> takes a transform of the frame function.
\<close>

type_synonym frame = "real list"
type_synonym transform = "(real \<Rightarrow> frame) \<Rightarrow> real \<Rightarrow> frame"

text \<open>
  An attribute that a clip may lack is an option: \<open>clip_volumex lib clip = None\<close> is
  \<open>hasattr(clip, "volumex")\<close> being false. The module globals \<open>volumex\<close> and
  \<open>audio_loop\<close> are \<open>None\<close> when their imports failed (lines 69-82).
  \<open>video_exit\<close> and \<open>audio_exit\<close> are the clips' \<open>__exit__\<close>, which closes the clip, never
  suppresses an exception and may raise one itself.
\<close>

record ('v, 'c) moviepy =
  VideoFileClip :: "string \<Rightarrow> exn + 'v"
  AudioFileClip :: "string \<Rightarrow> exn + 'c"
  duration :: "'v \<Rightarrow> real option"
  fps :: "'v \<Rightarrow> real option"
  audio :: "'v \<Rightarrow> 'c option"
  clip_volumex :: "'c \<Rightarrow> (real \<Rightarrow> exn + 'c) option"
  volumex :: "('c \<Rightarrow> real \<Rightarrow> exn + 'c) option"
  clip_fx :: "'c \<Rightarrow> ('c \<Rightarrow> real \<Rightarrow> exn + 'c) \<Rightarrow> real \<Rightarrow> exn + 'c"
  clip_fl :: "'c \<Rightarrow> (transform \<Rightarrow> exn + 'c) option"
  audio_loop :: "('c \<Rightarrow> real \<Rightarrow> exn + 'c) option"
  CompositeAudioClip :: "'c list \<Rightarrow> exn + 'c"
  with_audio :: "'v \<Rightarrow> 'c \<Rightarrow> exn + 'v"
  write_videofile :: "'v \<Rightarrow> string \<Rightarrow> real \<Rightarrow> exn option"
  video_exit :: "'v \<Rightarrow> exn option"
  audio_exit :: "'c \<Rightarrow> exn option"
  get_frame :: "'c \<Rightarrow> real \<Rightarrow> frame"
  clip_duration :: "'c \<Rightarrow> real"

subsection \<open>The volume adapter \<open>_safe_vol\<close> (lines 84-130)\<close>

text \<open>
  Each method is a \<open>try\<close> block whose handler is \<open>pass\<close>: it yields the clip it
  returned, or \<open>None\<close> when it was skipped or raised.
\<close>

definition method1 :: "('v, 'c) moviepy \<Rightarrow> 'c \<Rightarrow> real \<Rightarrow> 'c option" where
  "method1 lib clip level =
     (case clip_volumex lib clip of
        None \<Rightarrow> None
      | Some m \<Rightarrow> (case m level of Inl e \<Rightarrow> None | Inr c \<Rightarrow> Some c))"

definition method2 :: "('v, 'c) moviepy \<Rightarrow> 'c \<Rightarrow> real \<Rightarrow> 'c option" where
  "method2 lib clip level =
     (case volumex lib of
        None \<Rightarrow> None
      | Some f \<Rightarrow> (case clip_fx lib clip f level of Inl e \<Rightarrow> None | Inr c \<Rightarrow> Some c))"

text \<open>The lambda of line 121: \<open>lambda gf, t: gf(t) * float(level)\<close>.\<close>

definition scale_frames :: "real \<Rightarrow> transform" where
  "scale_frames level = (\<lambda>gf t. map (\<lambda>x. x * level) (gf t))"

definition method3 :: "('v, 'c) moviepy \<Rightarrow> 'c \<Rightarrow> real \<Rightarrow> 'c option" where
  "method3 lib clip level =
     (case clip_fl lib clip of
        None \<Rightarrow> None
      | Some m \<Rightarrow> (case m (scale_frames level) of Inl e \<Rightarrow> None | Inr c \<Rightarrow> Some c))"

definition volume_unavailable :: exn where
  "volume_unavailable = RuntimeError ''Volume effect not available in this MoviePy build.''"

definition safe_vol :: "('v, 'c) moviepy \<Rightarrow> 'c \<Rightarrow> real \<Rightarrow> exn + 'c" where
  "safe_vol lib clip level =
     (case method1 lib clip level of
        Some c \<Rightarrow> Inr c
      | None \<Rightarrow>
     (case method2 lib clip level of
        Some c \<Rightarrow> Inr c
      | None \<Rightarrow>
     (case method3 lib clip level of
        Some c \<Rightarrow> Inr c
      | None \<Rightarrow>
          if \<bar>level - 1\<bar> < 1 / 10 ^ 9 then Inr clip
          else Inl volume_unavailable)))"

subsection \<open>The merge worker (lines 146-248)\<close>

record MergeWorker =
  video_path :: string
  audio_path :: string
  output_path :: string
  music_level :: real
  original_level :: real
  duck :: bool

datatype 'v event =
    Progress int
  | Finished string
  | Failed string
  | LoadVideo string
  | LoadAudio string
  | WriteVideofile 'v string real

fun is_terminal :: "'v event \<Rightarrow> bool" where
  "is_terminal (Finished p) = True"
| "is_terminal (Failed m) = True"
| "is_terminal ev = False"

fun is_progress :: "'v event \<Rightarrow> bool" where
  "is_progress (Progress n) = True"
| "is_progress ev = False"

fun is_file_operation :: "'v event \<Rightarrow> bool" where
  "is_file_operation (LoadVideo p) = True"
| "is_file_operation (LoadAudio p) = True"
| "is_file_operation (WriteVideofile v p f) = True"
| "is_file_operation ev = False"

text \<open>\<open>v.duration or 0\<close> and \<open>v.fps or 25\<close>: \<open>None\<close> and zero are both falsy.\<close>

definition duration_or_0 :: "('v, 'c) moviepy \<Rightarrow> 'v \<Rightarrow> real" where
  "duration_or_0 lib v = (case duration lib v of None \<Rightarrow> 0 | Some d \<Rightarrow> if d = 0 then 0 else d)"

definition fps_or_25 :: "('v, 'c) moviepy \<Rightarrow> 'v \<Rightarrow> real" where
  "fps_or_25 lib v = (case fps lib v of None \<Rightarrow> 25 | Some f \<Rightarrow> if f = 0 then 25 else f)"

text \<open>Lines 215-220: the looping step. It has no way to raise.\<close>

definition loop_music :: "('v, 'c) moviepy \<Rightarrow> real \<Rightarrow> 'c \<Rightarrow> 'c" where
  "loop_music lib dur music =
     (if 0 < dur then
        (case audio_loop lib of
           None \<Rightarrow> music
         | Some loop \<Rightarrow> (case loop music dur of Inl e \<Rightarrow> music | Inr looped \<Rightarrow> looped))
      else music)"

text \<open>Lines 222-229: the clip that will be written.\<close>

definition merge_clip ::
  "('v, 'c) moviepy \<Rightarrow> MergeWorker \<Rightarrow> 'v \<Rightarrow> 'c option \<Rightarrow> 'c \<Rightarrow> exn + 'v" where
  "merge_clip lib self v original_audio music =
     (case original_audio of
        Some oa \<Rightarrow>
          if duck self then
            (case safe_vol lib oa (original_level self) of
               Inl e \<Rightarrow> Inl e
             | Inr bed \<Rightarrow>
                 (case CompositeAudioClip lib [bed, music] of
                    Inl e \<Rightarrow> Inl e
                  | Inr mixed \<Rightarrow> with_audio lib v mixed))
          else with_audio lib v music
      | None \<Rightarrow> with_audio lib v music)"

text \<open>
  A block of statements yields the events it caused and the exception that left it, if
  any. Leaving a \<open>with\<close> block calls \<open>__exit__\<close>; an exception raised there replaces the
  outcome of the block.
\<close>

type_synonym 'v outcome = "'v event list \<times> exn option"

definition leave_with :: "exn option \<Rightarrow> 'v outcome \<Rightarrow> 'v outcome" where
  "leave_with ex out =
     (case out of (evs, r) \<Rightarrow> (evs, (case ex of None \<Rightarrow> r | Some e \<Rightarrow> Some e)))"

text \<open>Lines 213-242: the body of \<open>with AudioFileClip(...) as music\<close>.\<close>

definition audio_block ::
  "('v, 'c) moviepy \<Rightarrow> MergeWorker \<Rightarrow> 'v \<Rightarrow> 'c \<Rightarrow> 'v outcome" where
  "audio_block lib self v music0 =
     (case safe_vol lib music0 (music_level self) of
        Inl e \<Rightarrow> ([], Some e)
      | Inr music1 \<Rightarrow>
          (case merge_clip lib self v (audio lib v)
                  (loop_music lib (duration_or_0 lib v) music1) of
             Inl e \<Rightarrow> ([], Some e)
           | Inr merged_clip \<Rightarrow>
               ([Progress 55, WriteVideofile merged_clip (output_path self) (fps_or_25 lib v)],
                write_videofile lib merged_clip (output_path self) (fps_or_25 lib v))))"

text \<open>Lines 205-242: the body of \<open>with VideoFileClip(...) as v\<close>.\<close>

definition video_block :: "('v, 'c) moviepy \<Rightarrow> MergeWorker \<Rightarrow> 'v \<Rightarrow> 'v outcome" where
  "video_block lib self v =
     (case AudioFileClip lib (audio_path self) of
        Inl e \<Rightarrow> ([Progress 20, LoadAudio (audio_path self)], Some e)
      | Inr music0 \<Rightarrow>
          (case leave_with (audio_exit lib music0) (audio_block lib self v music0) of
             (evs, r) \<Rightarrow> ([Progress 20, LoadAudio (audio_path self)] @ evs, r)))"

text \<open>Lines 197-245: the body of the outer \<open>try\<close>.\<close>

definition try_block :: "('v, 'c) moviepy \<Rightarrow> string \<Rightarrow> MergeWorker \<Rightarrow> 'v outcome" where
  "try_block lib engine self =
     (if engine = ''disabled'' then ([], Some (RuntimeError ''FFmpeg unavailable.''))
      else
        (case VideoFileClip lib (video_path self) of
           Inl e \<Rightarrow> ([Progress 5, LoadVideo (video_path self)], Some e)
         | Inr v \<Rightarrow>
             (case leave_with (video_exit lib v) (video_block lib self v) of
                (evs, Some e) \<Rightarrow> ([Progress 5, LoadVideo (video_path self)] @ evs, Some e)
              | (evs, None) \<Rightarrow>
                  ([Progress 5, LoadVideo (video_path self)] @ evs
                     @ [Progress 100, Finished (output_path self)], None))))"

text \<open>\<open>MergeWorker.run\<close>: the \<open>try\<close> and its handler \<open>except Exception as e\<close>.\<close>

definition run :: "('v, 'c) moviepy \<Rightarrow> string \<Rightarrow> MergeWorker \<Rightarrow> 'v event list" where
  "run lib engine self =
     (case try_block lib engine self of
        (evs, None) \<Rightarrow> evs
      | (evs, Some e) \<Rightarrow> evs @ [Failed (str e)])"

subsection \<open>The main window (lines 250-582)\<close>

text \<open>
  Python's \<open>str.lower\<close>, on ASCII letters. Other characters are left as they are; none
  of them lower-cases to a character of \<open>.mp4\<close>, which is all the result is compared with.
\<close>

definition lower_char :: "char \<Rightarrow> char" where
  "lower_char c =
     (case map_of (zip ''ABCDEFGHIJKLMNOPQRSTUVWXYZ'' ''abcdefghijklmnopqrstuvwxyz'') c of
        None \<Rightarrow> c
      | Some l \<Rightarrow> l)"

definition lower :: "string \<Rightarrow> string" where
  "lower s = map lower_char s"

definition endswith :: "string \<Rightarrow> string \<Rightarrow> bool" where
  "endswith s suf = suffix suf s"

text \<open>
  The window's state: the three paths of \<open>self.state\<close>, whether the merge button is
  enabled, the progress bar, the two sliders and the check box. \<open>threads\<close> lists the
  workers whose thread was started and whose terminal signal has not been delivered
  to the window yet.
\<close>

record MainWindow =
  state_video_path :: "string option"
  state_audio_path :: "string option"
  state_output_path :: "string option"
  merge_btn :: bool
  progress :: int
  music_slider :: int
  original_slider :: int
  keep_original_chk :: bool
  threads :: "MergeWorker list"

text \<open>The truth value of an optional path: \<open>None\<close> and the empty string are falsy.\<close>

fun truthy :: "string option \<Rightarrow> bool" where
  "truthy None = False"
| "truthy (Some p) = (p \<noteq> [])"

definition MainWindow_init :: MainWindow where
  "MainWindow_init =
     \<lparr>state_video_path = None, state_audio_path = None, state_output_path = None,
      merge_btn = False, progress = 0, music_slider = 100, original_slider = 20,
      keep_original_chk = True, threads = []\<rparr>"

definition enable_merge_if_ready :: "string \<Rightarrow> MainWindow \<Rightarrow> MainWindow" where
  "enable_merge_if_ready engine self =
     self\<lparr>merge_btn :=
       (truthy (state_video_path self) \<and> truthy (state_audio_path self)
          \<and> engine \<noteq> ''disabled'')\<rparr>"

text \<open>\<open>path\<close> is what the file dialog returned: empty when the user cancelled.\<close>

definition pick_video :: "string \<Rightarrow> MainWindow \<Rightarrow> string \<Rightarrow> MainWindow" where
  "pick_video engine self path =
     (if path \<noteq> [] then enable_merge_if_ready engine (self\<lparr>state_video_path := Some path\<rparr>)
      else self)"

definition pick_audio :: "string \<Rightarrow> MainWindow \<Rightarrow> string \<Rightarrow> MainWindow" where
  "pick_audio engine self path =
     (if path \<noteq> [] then enable_merge_if_ready engine (self\<lparr>state_audio_path := Some path\<rparr>)
      else self)"

text \<open>Lines 503-504: the extension check on the chosen output path.\<close>

definition with_mp4 :: "string \<Rightarrow> string" where
  "with_mp4 out_path =
     (if \<not> endswith (lower out_path) ''.mp4'' then out_path @ ''.mp4'' else out_path)"

text \<open>
  \<open>merge_and_preview\<close>; \<open>chosen\<close> is what the save dialog returned. The worker is built
  from the window's state and its thread is started.
\<close>

definition merge_and_preview :: "string \<Rightarrow> MainWindow \<Rightarrow> string \<Rightarrow> MainWindow" where
  "merge_and_preview engine self chosen =
     (case (state_video_path self, state_audio_path self) of
        (Some video, Some music) \<Rightarrow>
          if video = [] \<or> music = [] then self
          else if engine = ''disabled'' then self
          else if chosen = [] then self
          else
            self\<lparr>state_output_path := Some (with_mp4 chosen),
                 merge_btn := False,
                 progress := 0,
                 threads := threads self @
                   [\<lparr>video_path = video,
                     audio_path = music,
                     output_path = with_mp4 chosen,
                     music_level = real_of_int (music_slider self) / 100,
                     original_level = real_of_int (original_slider self) / 100,
                     duck = keep_original_chk self\<rparr>]\<rparr>
      | _ \<Rightarrow> self)"

definition on_merge_finished :: "string \<Rightarrow> MainWindow \<Rightarrow> string \<Rightarrow> MainWindow" where
  "on_merge_finished engine self output = enable_merge_if_ready engine self"

definition on_merge_failed :: "string \<Rightarrow> MainWindow \<Rightarrow> string \<Rightarrow> MainWindow" where
  "on_merge_failed engine self err = enable_merge_if_ready engine self"

text \<open>
  What can happen to the window: the user picks a file, the user clicks the merge button
  (Qt delivers the click only while the button is enabled), or the terminal signal of
  the \<open>i\<close>-th running worker arrives, which also ends its thread.
\<close>

datatype gui_event =
    PickVideo string
  | PickAudio string
  | ClickMerge string
  | WorkerFinished nat string
  | WorkerFailed nat string

definition end_thread :: "nat \<Rightarrow> MainWindow \<Rightarrow> MainWindow" where
  "end_thread i self = self\<lparr>threads := take i (threads self) @ drop (Suc i) (threads self)\<rparr>"

fun gui_step :: "string \<Rightarrow> MainWindow \<Rightarrow> gui_event \<Rightarrow> MainWindow" where
  "gui_step engine self (PickVideo path) = pick_video engine self path"
| "gui_step engine self (PickAudio path) = pick_audio engine self path"
| "gui_step engine self (ClickMerge chosen) =
     (if merge_btn self then merge_and_preview engine self chosen else self)"
| "gui_step engine self (WorkerFinished i output) =
     (if i < length (threads self) then on_merge_finished engine (end_thread i self) output
      else self)"
| "gui_step engine self (WorkerFailed i err) =
     (if i < length (threads self) then on_merge_failed engine (end_thread i self) err
      else self)"

definition gui_run :: "string \<Rightarrow> MainWindow \<Rightarrow> gui_event list \<Rightarrow> MainWindow" where
  "gui_run engine self evs = foldl (gui_step engine) self evs"

subsection \<open>The volume adapter as the specification words it\<close>

text \<open>
  The specification describes the adapter as a chain of strategies: the mechanisms the
  linked build supports, in the order direct method, effect function, manual transform,
  each of which returns a clip or raises; the first success is the result.
\<close>

definition supported_mechanisms ::
  "('v, 'c) moviepy \<Rightarrow> 'c \<Rightarrow> (real \<Rightarrow> exn + 'c) list" where
  "supported_mechanisms lib clip =
     (case clip_volumex lib clip of None \<Rightarrow> [] | Some m \<Rightarrow> [m])
     @ (case volumex lib of None \<Rightarrow> [] | Some f \<Rightarrow> [clip_fx lib clip f])
     @ (case clip_fl lib clip of None \<Rightarrow> [] | Some m \<Rightarrow> [\<lambda>level. m (scale_frames level)])"

fun first_success :: "(real \<Rightarrow> exn + 'c) list \<Rightarrow> real \<Rightarrow> 'c option" where
  "first_success [] level = None"
| "first_success (mechanism # rest) level =
     (case mechanism level of Inr c \<Rightarrow> Some c | Inl e \<Rightarrow> first_success rest level)"

definition safe_vol_spec :: "('v, 'c) moviepy \<Rightarrow> 'c \<Rightarrow> real \<Rightarrow> exn + 'c" where
  "safe_vol_spec lib clip level =
     (case first_success (supported_mechanisms lib clip) level of
        Some c \<Rightarrow> Inr c
      | None \<Rightarrow>
          if \<bar>level - 1\<bar> < 1 / 10 ^ 9 then Inr clip
          else Inl volume_unavailable)"

text \<open>
  What the program relies on from MoviePy, where a claim is about the audio itself:
  a scaling mechanism that returns a clip has scaled every frame by the level,
  \<open>fl\<close> has applied the transform it was given, and a loop that returns a clip has
  made it at least as long as asked.
\<close>

definition scaling_contract :: "('v, 'c) moviepy \<Rightarrow> bool" where
  "scaling_contract lib =
     ((\<forall>clip m level c. clip_volumex lib clip = Some m \<and> m level = Inr c \<longrightarrow>
          get_frame lib c = scale_frames level (get_frame lib clip))
      \<and> (\<forall>clip f level c. volumex lib = Some f \<and> clip_fx lib clip f level = Inr c \<longrightarrow>
          get_frame lib c = scale_frames level (get_frame lib clip))
      \<and> (\<forall>clip m tr c. clip_fl lib clip = Some m \<and> m tr = Inr c \<longrightarrow>
          get_frame lib c = tr (get_frame lib clip)))"

definition loop_contract :: "('v, 'c) moviepy \<Rightarrow> bool" where
  "loop_contract lib =
     (\<forall>loop music dur looped. audio_loop lib = Some loop \<and> loop music dur = Inr looped \<longrightarrow>
        dur \<le> clip_duration lib looped)"

subsection \<open>A build of MoviePy to run the model on\<close>

text \<open>
  Clips as the expressions that built them. Every video file is ten seconds long at 30
  frames per second and carries an audio track, except \<open>silent.mp4\<close>, which has none, and
  \<open>missing.mp4\<close>, which cannot be opened. Every music file is three seconds long.
\<close>

datatype aclip =
    AudioFile string
  | Volumex aclip real
  | Fl aclip transform
  | AudioLoop aclip real
  | Composite "aclip list"

datatype vclip =
    VideoFile string
  | WithAudio vclip aclip

fun add_frames :: "frame list \<Rightarrow> frame" where
  "add_frames [] = []"
| "add_frames [f] = f"
| "add_frames (f # fs) = map2 (+) f (add_frames fs)"

fun frames :: "aclip \<Rightarrow> real \<Rightarrow> frame" where
  "frames (AudioFile p) = (\<lambda>t. [t, - t])"
| "frames (Volumex c level) = scale_frames level (frames c)"
| "frames (Fl c tr) = tr (frames c)"
| "frames (AudioLoop c dur) = frames c"
| "frames (Composite cs) = (\<lambda>t. add_frames (map (\<lambda>c. frames c t) cs))"

fun seconds :: "aclip \<Rightarrow> real" where
  "seconds (AudioFile p) = 3"
| "seconds (Volumex c level) = seconds c"
| "seconds (Fl c tr) = seconds c"
| "seconds (AudioLoop c dur) = dur"
| "seconds (Composite cs) = fold max (map seconds cs) 0"

fun video_file :: "vclip \<Rightarrow> string" where
  "video_file (VideoFile p) = p"
| "video_file (WithAudio v a) = video_file v"

fun video_audio :: "vclip \<Rightarrow> aclip option" where
  "video_audio (VideoFile p) = (if p = ''silent.mp4'' then None else Some (AudioFile p))"
| "video_audio (WithAudio v a) = Some a"

definition moviepy_1 :: "(vclip, aclip) moviepy" where
  "moviepy_1 =
     \<lparr>VideoFileClip = (\<lambda>p. if p = ''missing.mp4''
                             then Inl (OtherException ''missing.mp4 could not be found'')
                             else Inr (VideoFile p)),
      AudioFileClip = (\<lambda>p. Inr (AudioFile p)),
      duration = (\<lambda>v. Some 10),
      fps = (\<lambda>v. Some 30),
      audio = video_audio,
      clip_volumex = (\<lambda>c. Some (\<lambda>level. Inr (Volumex c level))),
      volumex = Some (\<lambda>c level. Inr (Volumex c level)),
      clip_fx = (\<lambda>c f level. f c level),
      clip_fl = (\<lambda>c. Some (\<lambda>tr. Inr (Fl c tr))),
      audio_loop = Some (\<lambda>c dur. Inr (AudioLoop c dur)),
      CompositeAudioClip = (\<lambda>cs. Inr (Composite cs)),
      with_audio = (\<lambda>v a. Inr (WithAudio v a)),
      write_videofile = (\<lambda>v p f. None),
      video_exit = (\<lambda>v. None),
      audio_exit = (\<lambda>c. None),
      get_frame = frames,
      clip_duration = seconds\<rparr>"

text \<open>The same build with nothing to scale the volume with and no looping effect.\<close>

definition moviepy_bare :: "(vclip, aclip) moviepy" where
  "moviepy_bare =
     moviepy_1\<lparr>clip_volumex := (\<lambda>c. None), volumex := None, clip_fl := (\<lambda>c. None),
               audio_loop := None\<rparr>"

text \<open>The first build with a looping effect that always raises.\<close>

definition moviepy_loop_raises :: "(vclip, aclip) moviepy" where
  "moviepy_loop_raises =
     moviepy_1\<lparr>audio_loop := Some (\<lambda>c dur. Inl (OtherException ''audio_loop failed''))\<rparr>"

text \<open>The first build with a video clip whose \<open>__exit__\<close> raises.\<close>

definition moviepy_close_raises :: "(vclip, aclip) moviepy" where
  "moviepy_close_raises =
     moviepy_1\<lparr>video_exit := (\<lambda>v. Some (OtherException ''close failed''))\<rparr>"

text \<open>A request for the music at 80 percent and the original audio at 20 percent.\<close>

definition request :: "string \<Rightarrow> bool \<Rightarrow> MergeWorker" where
  "request video ducking =
     \<lparr>video_path = video, audio_path = ''music.mp3'', output_path = ''out.mp4'',
      music_level = 8/10, original_level = 2/10, duck = ducking\<rparr>"

text \<open>
  A machine with no FFmpeg on the search path and none bundled, and the import of
  MoviePy on it: MoviePy resolves FFmpeg for itself when it is imported, from
  \<open>IMAGEIO_FFMPEG_EXE\<close> when that is set and through \<open>imageio_ffmpeg\<close> otherwise, and
  raises what \<open>imageio_ffmpeg\<close> raises.
\<close>

definition os_none :: os_env where
  "os_none =
     \<lparr>shutil_which = None,
      get_ffmpeg_exe = Inl (RuntimeError ''No ffmpeg exe could be found.''),
      os_path_exists = (\<lambda>p. False)\<rparr>"

definition import_moviepy_2 :: "os_env \<Rightarrow> globals \<Rightarrow> exn option" where
  "import_moviepy_2 os g =
     (case IMAGEIO_FFMPEG_EXE g of
        Some p \<Rightarrow> None
      | None \<Rightarrow> (case get_ffmpeg_exe os of Inl e \<Rightarrow> Some e | Inr p \<Rightarrow> None))"

text \<open>A window in which a video and a music file have been picked.\<close>

definition window_ready :: MainWindow where
  "window_ready =
     gui_run ''system-ffmpeg'' MainWindow_init [PickVideo ''a.mp4'', PickAudio ''m.mp3'']"

section \<open>Properties\<close>

subsection \<open>The volume adapter\<close>

text \<open>
  Claim C1. For every clip and every level, \<open>_safe_vol\<close> tries the mechanisms in the
  fixed order native \<open>volumex\<close> method, effect function through \<open>clip.fx\<close>, manual
  transform through \<open>clip.fl\<close>, and returns what the first one that does not raise
  returned; if none succeeds it returns the clip unchanged when the level is within
  \<open>1e-9\<close> of 1, and raises the "not available" error otherwise. The program's function
  equals the strategy chain of the specification.
\<close>

theorem safe_vol_first_success:
  "safe_vol lib clip level = safe_vol_spec lib clip level"
  by (auto simp add: safe_vol_def safe_vol_spec_def supported_mechanisms_def
      method1_def method2_def method3_def split: option.splits sum.splits)

theorem safe_vol_first_success_witness:
  "safe_vol moviepy_bare (AudioFile ''m.mp3'') (1/2) = Inl volume_unavailable
   \<and> safe_vol moviepy_bare (AudioFile ''m.mp3'') 1 = Inr (AudioFile ''m.mp3'')
   \<and> safe_vol moviepy_1 (AudioFile ''m.mp3'') (1/2) = Inr (Volumex (AudioFile ''m.mp3'') (1/2))"
  using safe_vol_first_success [of moviepy_bare "AudioFile ''m.mp3''" "1/2"]
    safe_vol_first_success [of moviepy_bare "AudioFile ''m.mp3''" 1]
    safe_vol_first_success [of moviepy_1 "AudioFile ''m.mp3''" "1/2"]
  by (simp add: safe_vol_spec_def supported_mechanisms_def moviepy_bare_def moviepy_1_def)

subsection \<open>The merge worker\<close>

text \<open>Neither \<open>with\<close> block emits a terminal signal.\<close>

lemma audio_block_no_terminal:
  "audio_block lib self v m = (evs, r) \<Longrightarrow> filter is_terminal evs = []"
  by (auto simp add: audio_block_def split: sum.splits)

lemma video_block_no_terminal:
  "video_block lib self v = (evs, r) \<Longrightarrow> filter is_terminal evs = []"
  by (auto simp add: video_block_def leave_with_def split: sum.splits prod.splits
      dest: audio_block_no_terminal)

lemma try_block_cases:
  "(\<exists>evs e. try_block lib engine self = (evs, Some e) \<and> filter is_terminal evs = [])
   \<or> (\<exists>evs. try_block lib engine self = (evs @ [Finished (output_path self)], None)
         \<and> filter is_terminal evs = [])"
  by (auto simp add: try_block_def leave_with_def split: sum.splits prod.splits option.splits
      dest: video_block_no_terminal)

text \<open>Where a write of the output is asked for, and with which clip.\<close>

lemma write_in_audio_block:
  "WriteVideofile merged out f \<in> set (fst (audio_block lib self v music0)) \<longleftrightarrow>
     out = output_path self \<and> f = fps_or_25 lib v \<and>
     (\<exists>music1. safe_vol lib music0 (music_level self) = Inr music1
        \<and> merge_clip lib self v (audio lib v) (loop_music lib (duration_or_0 lib v) music1)
            = Inr merged)"
  by (auto simp add: audio_block_def split: sum.splits)

lemma write_in_video_block:
  "WriteVideofile merged out f \<in> set (fst (video_block lib self v)) \<longleftrightarrow>
     out = output_path self \<and> f = fps_or_25 lib v \<and>
     (\<exists>music0 music1. AudioFileClip lib (audio_path self) = Inr music0
        \<and> safe_vol lib music0 (music_level self) = Inr music1
        \<and> merge_clip lib self v (audio lib v) (loop_music lib (duration_or_0 lib v) music1)
            = Inr merged)"
  using write_in_audio_block [of merged out f lib self v]
  by (auto simp add: video_block_def leave_with_def case_prod_beta split: sum.splits)

lemma write_in_run:
  "WriteVideofile merged out f \<in> set (run lib engine self) \<longleftrightarrow>
     engine \<noteq> ''disabled'' \<and> out = output_path self \<and>
     (\<exists>v music0 music1. VideoFileClip lib (video_path self) = Inr v
        \<and> f = fps_or_25 lib v
        \<and> AudioFileClip lib (audio_path self) = Inr music0
        \<and> safe_vol lib music0 (music_level self) = Inr music1
        \<and> merge_clip lib self v (audio lib v) (loop_music lib (duration_or_0 lib v) music1)
            = Inr merged)"
  using write_in_video_block [of merged out f lib self]
  by (auto simp add: run_def try_block_def leave_with_def case_prod_beta split: sum.splits option.splits)

lemma merge_clip_cases:
  "merge_clip lib self v original_audio music = Inr merged \<longleftrightarrow>
     (if duck self \<and> original_audio \<noteq> None
      then \<exists>oa bed mixed. original_audio = Some oa
             \<and> safe_vol lib oa (original_level self) = Inr bed
             \<and> CompositeAudioClip lib [bed, music] = Inr mixed
             \<and> with_audio lib v mixed = Inr merged
      else with_audio lib v music = Inr merged)"
  by (auto simp add: merge_clip_def split: option.splits sum.splits)

text \<open>Which exception leaves each block, and when none does.\<close>

lemma merge_clip_raises:
  "merge_clip lib self v original_audio music = Inl e \<longleftrightarrow>
     (if duck self \<and> original_audio \<noteq> None
      then \<exists>oa. original_audio = Some oa
             \<and> (safe_vol lib oa (original_level self) = Inl e
                \<or> (\<exists>bed. safe_vol lib oa (original_level self) = Inr bed
                      \<and> (CompositeAudioClip lib [bed, music] = Inl e
                         \<or> (\<exists>mixed. CompositeAudioClip lib [bed, music] = Inr mixed
                               \<and> with_audio lib v mixed = Inl e))))
      else with_audio lib v music = Inl e)"
  by (auto simp add: merge_clip_def split: option.splits sum.splits)

lemma audio_block_raises:
  "snd (audio_block lib self v loaded) = Some e \<longleftrightarrow>
     safe_vol lib loaded (music_level self) = Inl e
     \<or> (\<exists>scaled. safe_vol lib loaded (music_level self) = Inr scaled
          \<and> (merge_clip lib self v (audio lib v)
                (loop_music lib (duration_or_0 lib v) scaled) = Inl e
             \<or> (\<exists>merged. merge_clip lib self v (audio lib v)
                     (loop_music lib (duration_or_0 lib v) scaled) = Inr merged
                   \<and> write_videofile lib merged (output_path self) (fps_or_25 lib v) = Some e)))"
  by (auto simp add: audio_block_def split: sum.splits)

lemma audio_block_returns:
  "snd (audio_block lib self v loaded) = None \<longleftrightarrow>
     (\<exists>scaled merged. safe_vol lib loaded (music_level self) = Inr scaled
        \<and> merge_clip lib self v (audio lib v)
             (loop_music lib (duration_or_0 lib v) scaled) = Inr merged
        \<and> write_videofile lib merged (output_path self) (fps_or_25 lib v) = None)"
  by (auto simp add: audio_block_def split: sum.splits)

lemma video_block_raises:
  "snd (video_block lib self v) = Some e \<longleftrightarrow>
     AudioFileClip lib (audio_path self) = Inl e
     \<or> (\<exists>loaded. AudioFileClip lib (audio_path self) = Inr loaded
          \<and> (audio_exit lib loaded = Some e
             \<or> audio_exit lib loaded = None \<and> snd (audio_block lib self v loaded) = Some e))"
  by (auto simp add: video_block_def leave_with_def case_prod_beta split: sum.splits option.splits)

lemma video_block_returns:
  "snd (video_block lib self v) = None \<longleftrightarrow>
     (\<exists>loaded. AudioFileClip lib (audio_path self) = Inr loaded
          \<and> audio_exit lib loaded = None \<and> snd (audio_block lib self v loaded) = None)"
  by (auto simp add: video_block_def leave_with_def case_prod_beta split: sum.splits option.splits)

lemma try_block_raises:
  "snd (try_block lib engine self) = Some e \<longleftrightarrow>
     engine = ''disabled'' \<and> e = RuntimeError ''FFmpeg unavailable.''
     \<or> engine \<noteq> ''disabled''
        \<and> (VideoFileClip lib (video_path self) = Inl e
           \<or> (\<exists>v. VideoFileClip lib (video_path self) = Inr v
                \<and> (video_exit lib v = Some e
                   \<or> video_exit lib v = None \<and> snd (video_block lib self v) = Some e)))"
  by (auto simp add: try_block_def leave_with_def case_prod_beta split: sum.splits option.splits)

lemma try_block_returns:
  "snd (try_block lib engine self) = None \<longleftrightarrow>
     engine \<noteq> ''disabled''
     \<and> (\<exists>v. VideoFileClip lib (video_path self) = Inr v
           \<and> video_exit lib v = None \<and> snd (video_block lib self v) = None)"
  by (auto simp add: try_block_def leave_with_def case_prod_beta split: sum.splits option.splits)

lemma no_terminal_member:
  "filter is_terminal evs = [] \<Longrightarrow> Failed m \<notin> set evs \<and> Finished p \<notin> set evs"
  by (auto simp add: filter_empty_conv)

lemma failed_in_run:
  "Failed m \<in> set (run lib engine self) \<longleftrightarrow>
     (\<exists>e. m = str e \<and> snd (try_block lib engine self) = Some e)"
  using try_block_cases [of lib engine self]
  by (auto simp add: run_def dest: no_terminal_member)

lemma finished_in_run:
  "Finished p \<in> set (run lib engine self) \<longleftrightarrow>
     p = output_path self \<and> snd (try_block lib engine self) = None"
  using try_block_cases [of lib engine self]
  by (auto simp add: run_def dest: no_terminal_member)

lemma one_terminal_last:
  "length (filter is_terminal (run lib engine self)) = 1
   \<and> is_terminal (last (run lib engine self))"
  using try_block_cases [of lib engine self]
  by (auto simp add: run_def)

text \<open>
  Claim C4. Every run of the worker emits exactly one terminal signal, and emits it
  last. It is \<open>finished\<close> with the output path exactly when the engine is there and every
  stage returned: both loads, both volume adjustments, the mix, the write and the two
  \<open>__exit__\<close> calls. It is \<open>failed\<close> with \<open>str(e)\<close> exactly for the exception \<open>e\<close> that the
  engine check, a load, a volume adjustment, the composite, \<open>with_audio\<close>, the write or
  an \<open>__exit__\<close> raised, an \<open>__exit__\<close> taking precedence over what was raised inside its
  block. An exception of the looping effect is not among them.
\<close>

theorem run_one_terminal_outcome:
  "length (filter is_terminal (run lib engine self)) = 1
   \<and> is_terminal (last (run lib engine self))
   \<and> (Finished p \<in> set (run lib engine self) \<longleftrightarrow>
        p = output_path self \<and> engine \<noteq> ''disabled''
        \<and> (\<exists>v loaded scaled music merged.
              VideoFileClip lib (video_path self) = Inr v
            \<and> AudioFileClip lib (audio_path self) = Inr loaded
            \<and> safe_vol lib loaded (music_level self) = Inr scaled
            \<and> music = loop_music lib (duration_or_0 lib v) scaled
            \<and> (if duck self \<and> audio lib v \<noteq> None
                then \<exists>oa bed mixed. audio lib v = Some oa
                       \<and> safe_vol lib oa (original_level self) = Inr bed
                       \<and> CompositeAudioClip lib [bed, music] = Inr mixed
                       \<and> with_audio lib v mixed = Inr merged
                else with_audio lib v music = Inr merged)
            \<and> write_videofile lib merged (output_path self) (fps_or_25 lib v) = None
            \<and> audio_exit lib loaded = None
            \<and> video_exit lib v = None))
   \<and> (Failed m \<in> set (run lib engine self) \<longleftrightarrow>
        (\<exists>e. m = str e
          \<and> (engine = ''disabled'' \<and> e = RuntimeError ''FFmpeg unavailable.''
             \<or> engine \<noteq> ''disabled''
                \<and> (VideoFileClip lib (video_path self) = Inl e
                   \<or> (\<exists>v. VideoFileClip lib (video_path self) = Inr v
                        \<and> (video_exit lib v = Some e
                           \<or> video_exit lib v = None
                              \<and> (AudioFileClip lib (audio_path self) = Inl e
                                 \<or> (\<exists>loaded. AudioFileClip lib (audio_path self) = Inr loaded
                                      \<and> (audio_exit lib loaded = Some e
                                         \<or> audio_exit lib loaded = None
                                            \<and> (safe_vol lib loaded (music_level self) = Inl e
                                               \<or> (\<exists>scaled music.
                                                     safe_vol lib loaded (music_level self) = Inr scaled
                                                   \<and> music = loop_music lib (duration_or_0 lib v) scaled
                                                   \<and> ((if duck self \<and> audio lib v \<noteq> None
                                                        then \<exists>oa. audio lib v = Some oa
                                                          \<and> (safe_vol lib oa (original_level self) = Inl e
                                                             \<or> (\<exists>bed. safe_vol lib oa (original_level self) = Inr bed
                                                                  \<and> (CompositeAudioClip lib [bed, music] = Inl e
                                                                     \<or> (\<exists>mixed. CompositeAudioClip lib [bed, music] = Inr mixed
                                                                           \<and> with_audio lib v mixed = Inl e))))
                                                        else with_audio lib v music = Inl e)
                                                      \<or> (\<exists>merged.
                                                            (if duck self \<and> audio lib v \<noteq> None
                                                             then \<exists>oa bed mixed. audio lib v = Some oa
                                                               \<and> safe_vol lib oa (original_level self) = Inr bed
                                                               \<and> CompositeAudioClip lib [bed, music] = Inr mixed
                                                               \<and> with_audio lib v mixed = Inr merged
                                                             else with_audio lib v music = Inr merged)
                                                          \<and> write_videofile lib merged (output_path self)
                                                               (fps_or_25 lib v) = Some e)))))))))))))"
proof (intro conjI)
  show "length (filter is_terminal (run lib engine self)) = 1"
    using one_terminal_last by blast
  show "is_terminal (last (run lib engine self))"
    using one_terminal_last by blast
  show "Finished p \<in> set (run lib engine self) \<longleftrightarrow>
        p = output_path self \<and> engine \<noteq> ''disabled''
        \<and> (\<exists>v loaded scaled music merged.
              VideoFileClip lib (video_path self) = Inr v
            \<and> AudioFileClip lib (audio_path self) = Inr loaded
            \<and> safe_vol lib loaded (music_level self) = Inr scaled
            \<and> music = loop_music lib (duration_or_0 lib v) scaled
            \<and> (if duck self \<and> audio lib v \<noteq> None
                then \<exists>oa bed mixed. audio lib v = Some oa
                       \<and> safe_vol lib oa (original_level self) = Inr bed
                       \<and> CompositeAudioClip lib [bed, music] = Inr mixed
                       \<and> with_audio lib v mixed = Inr merged
                else with_audio lib v music = Inr merged)
            \<and> write_videofile lib merged (output_path self) (fps_or_25 lib v) = None
            \<and> audio_exit lib loaded = None
            \<and> video_exit lib v = None)"
    unfolding finished_in_run try_block_returns video_block_returns audio_block_returns
      merge_clip_cases
    by auto
  show "Failed m \<in> set (run lib engine self) \<longleftrightarrow>
        (\<exists>e. m = str e
          \<and> (engine = ''disabled'' \<and> e = RuntimeError ''FFmpeg unavailable.''
             \<or> engine \<noteq> ''disabled''
                \<and> (VideoFileClip lib (video_path self) = Inl e
                   \<or> (\<exists>v. VideoFileClip lib (video_path self) = Inr v
                        \<and> (video_exit lib v = Some e
                           \<or> video_exit lib v = None
                              \<and> (AudioFileClip lib (audio_path self) = Inl e
                                 \<or> (\<exists>loaded. AudioFileClip lib (audio_path self) = Inr loaded
                                      \<and> (audio_exit lib loaded = Some e
                                         \<or> audio_exit lib loaded = None
                                            \<and> (safe_vol lib loaded (music_level self) = Inl e
                                               \<or> (\<exists>scaled music.
                                                     safe_vol lib loaded (music_level self) = Inr scaled
                                                   \<and> music = loop_music lib (duration_or_0 lib v) scaled
                                                   \<and> ((if duck self \<and> audio lib v \<noteq> None
                                                        then \<exists>oa. audio lib v = Some oa
                                                          \<and> (safe_vol lib oa (original_level self) = Inl e
                                                             \<or> (\<exists>bed. safe_vol lib oa (original_level self) = Inr bed
                                                                  \<and> (CompositeAudioClip lib [bed, music] = Inl e
                                                                     \<or> (\<exists>mixed. CompositeAudioClip lib [bed, music] = Inr mixed
                                                                           \<and> with_audio lib v mixed = Inl e))))
                                                        else with_audio lib v music = Inl e)
                                                      \<or> (\<exists>merged.
                                                            (if duck self \<and> audio lib v \<noteq> None
                                                             then \<exists>oa bed mixed. audio lib v = Some oa
                                                               \<and> safe_vol lib oa (original_level self) = Inr bed
                                                               \<and> CompositeAudioClip lib [bed, music] = Inr mixed
                                                               \<and> with_audio lib v mixed = Inr merged
                                                             else with_audio lib v music = Inr merged)
                                                          \<and> write_videofile lib merged (output_path self)
                                                               (fps_or_25 lib v) = Some e))))))))))))"
    unfolding failed_in_run try_block_raises video_block_raises audio_block_raises
      merge_clip_raises merge_clip_cases
    by simp
qed

theorem run_one_terminal_outcome_witness:
  "Failed ''missing.mp4 could not be found''
     \<in> set (run moviepy_1 ''system-ffmpeg'' (request ''missing.mp4'' False))
   \<and> Failed ''close failed''
     \<in> set (run moviepy_close_raises ''system-ffmpeg'' (request ''video.mp4'' False))
   \<and> Finished ''out.mp4''
     \<notin> set (run moviepy_close_raises ''system-ffmpeg'' (request ''video.mp4'' False))
   \<and> Finished ''out.mp4''
     \<in> set (run moviepy_1 ''system-ffmpeg'' (request ''video.mp4'' False))"
proof -
  have vol: "safe_vol moviepy_1 (AudioFile ''music.mp3'') (8/10)
      = Inr (Volumex (AudioFile ''music.mp3'') (8/10))"
    by (simp add: safe_vol_def method1_def moviepy_1_def)
  have a: "Failed ''missing.mp4 could not be found''
     \<in> set (run moviepy_1 ''system-ffmpeg'' (request ''missing.mp4'' False))"
    using run_one_terminal_outcome [where lib = moviepy_1 and engine = "''system-ffmpeg''"
        and self = "request ''missing.mp4'' False" and m = "''missing.mp4 could not be found''"]
    by (simp add: request_def moviepy_1_def)
  have b: "Failed ''close failed''
     \<in> set (run moviepy_close_raises ''system-ffmpeg'' (request ''video.mp4'' False))"
    using run_one_terminal_outcome [where lib = moviepy_close_raises
        and engine = "''system-ffmpeg''"
        and self = "request ''video.mp4'' False" and m = "''close failed''"]
    by (simp add: request_def moviepy_1_def moviepy_close_raises_def)
  have c: "Finished ''out.mp4''
     \<notin> set (run moviepy_close_raises ''system-ffmpeg'' (request ''video.mp4'' False))"
    using run_one_terminal_outcome [where lib = moviepy_close_raises
        and engine = "''system-ffmpeg''"
        and self = "request ''video.mp4'' False" and p = "''out.mp4''"]
    by (simp add: request_def moviepy_1_def moviepy_close_raises_def)
  have d: "Finished ''out.mp4''
     \<in> set (run moviepy_1 ''system-ffmpeg'' (request ''video.mp4'' False))"
    using vol run_one_terminal_outcome [where lib = moviepy_1 and engine = "''system-ffmpeg''"
        and self = "request ''video.mp4'' False" and p = "''out.mp4''"]
    by (simp add: request_def moviepy_1_def)
  from a b c d show ?thesis by simp
qed

text \<open>
  Claim C6. With the engine state \<open>disabled\<close>, the run consists of the one signal
  \<open>failed("FFmpeg unavailable.")\<close>: no file is loaded or written and no progress
  milestone is emitted, whatever the request and the MoviePy build.
\<close>

theorem run_engine_disabled:
  "run lib ''disabled'' self = [Failed ''FFmpeg unavailable.'']
   \<and> filter is_file_operation (run lib ''disabled'' self) = []
   \<and> filter is_progress (run lib ''disabled'' self) = []"
  by (simp add: run_def try_block_def)

text \<open>
  Claim C2. The clip the job writes is the video with, when the ducking flag is set and
  the video has an audio track, the composite of that track scaled by the original
  level through \<open>_safe_vol\<close> and the looped music; in every other case it is the video
  with the looped music alone, and the original track takes no part. The write happens
  exactly when every step before it succeeded.
\<close>

theorem written_audio_ducked_or_replaced:
  "WriteVideofile merged out f \<in> set (run lib engine self) \<longleftrightarrow>
     engine \<noteq> ''disabled'' \<and> out = output_path self \<and>
     (\<exists>v music0 music1 music. VideoFileClip lib (video_path self) = Inr v
        \<and> f = fps_or_25 lib v
        \<and> AudioFileClip lib (audio_path self) = Inr music0
        \<and> safe_vol lib music0 (music_level self) = Inr music1
        \<and> music = loop_music lib (duration_or_0 lib v) music1
        \<and> (if duck self \<and> audio lib v \<noteq> None
            then \<exists>oa bed mixed. audio lib v = Some oa
                   \<and> safe_vol lib oa (original_level self) = Inr bed
                   \<and> CompositeAudioClip lib [bed, music] = Inr mixed
                   \<and> with_audio lib v mixed = Inr merged
            else with_audio lib v music = Inr merged))"
  unfolding write_in_run merge_clip_cases by auto

theorem written_audio_witness:
  "WriteVideofile
      (WithAudio (VideoFile ''video.mp4'')
         (Composite [Volumex (AudioFile ''video.mp4'') (2/10),
                     AudioLoop (Volumex (AudioFile ''music.mp3'') (8/10)) 10]))
      ''out.mp4'' 30
    \<in> set (run moviepy_1 ''system-ffmpeg''
         \<lparr>video_path = ''video.mp4'', audio_path = ''music.mp3'', output_path = ''out.mp4'',
          music_level = 8/10, original_level = 2/10, duck = True\<rparr>)
   \<and> WriteVideofile
      (WithAudio (VideoFile ''video.mp4'')
         (AudioLoop (Volumex (AudioFile ''music.mp3'') (8/10)) 10))
      ''out.mp4'' 30
    \<in> set (run moviepy_1 ''system-ffmpeg''
         \<lparr>video_path = ''video.mp4'', audio_path = ''music.mp3'', output_path = ''out.mp4'',
          music_level = 8/10, original_level = 2/10, duck = False\<rparr>)"
  unfolding written_audio_ducked_or_replaced
  by (simp add: moviepy_1_def safe_vol_def method1_def loop_music_def duration_or_0_def
      fps_or_25_def)

text \<open>
  Claim C10. When the loaded video has no audio track, a run with the ducking flag set
  and any original level is the same run as one with the flag cleared and any other
  original level: the level has no influence, and what is written is the video with
  the looped music alone.
\<close>

theorem original_level_unused_without_audio:
  assumes "\<forall>v. VideoFileClip lib (video_path self) = Inr v \<longrightarrow> audio lib v = None"
  shows "run lib engine (self\<lparr>original_level := la, duck := True\<rparr>)
           = run lib engine (self\<lparr>original_level := lb, duck := False\<rparr>)
         \<and> (\<forall>merged out f.
              WriteVideofile merged out f
                \<in> set (run lib engine (self\<lparr>original_level := la, duck := True\<rparr>)) \<longrightarrow>
              (\<exists>v music0 music1. VideoFileClip lib (video_path self) = Inr v
                 \<and> AudioFileClip lib (audio_path self) = Inr music0
                 \<and> safe_vol lib music0 (music_level self) = Inr music1
                 \<and> with_audio lib v (loop_music lib (duration_or_0 lib v) music1) = Inr merged))"
proof
  show "run lib engine (self\<lparr>original_level := la, duck := True\<rparr>)
           = run lib engine (self\<lparr>original_level := lb, duck := False\<rparr>)"
    using assms
    by (auto simp add: run_def try_block_def video_block_def audio_block_def merge_clip_def
        split: sum.splits)
next
  show "\<forall>merged out f.
              WriteVideofile merged out f
                \<in> set (run lib engine (self\<lparr>original_level := la, duck := True\<rparr>)) \<longrightarrow>
              (\<exists>v music0 music1. VideoFileClip lib (video_path self) = Inr v
                 \<and> AudioFileClip lib (audio_path self) = Inr music0
                 \<and> safe_vol lib music0 (music_level self) = Inr music1
                 \<and> with_audio lib v (loop_music lib (duration_or_0 lib v) music1) = Inr merged)"
    using assms unfolding write_in_run
    by (auto simp add: merge_clip_def)
qed

theorem original_level_unused_witness:
  "run moviepy_1 ''system-ffmpeg''
      \<lparr>video_path = ''silent.mp4'', audio_path = ''music.mp3'', output_path = ''out.mp4'',
       music_level = 8/10, original_level = 2/10, duck = True\<rparr>
   = run moviepy_1 ''system-ffmpeg''
      \<lparr>video_path = ''silent.mp4'', audio_path = ''music.mp3'', output_path = ''out.mp4'',
       music_level = 8/10, original_level = 9/10, duck = False\<rparr>"
  using original_level_unused_without_audio
    [where lib = moviepy_1 and engine = "''system-ffmpeg''" and la = "2/10" and lb = "9/10"
       and self = "\<lparr>video_path = ''silent.mp4'', audio_path = ''music.mp3'',
          output_path = ''out.mp4'', music_level = 8/10, original_level = 0, duck = False\<rparr>"]
  by (simp add: moviepy_1_def)

text \<open>The looping effect is read by the looping step only.\<close>

lemma methods_audio_loop:
  "method1 (lib\<lparr>audio_loop := x\<rparr>) clip level = method1 lib clip level"
  "method2 (lib\<lparr>audio_loop := x\<rparr>) clip level = method2 lib clip level"
  "method3 (lib\<lparr>audio_loop := x\<rparr>) clip level = method3 lib clip level"
  by (simp_all add: method1_def method2_def method3_def split: option.splits sum.splits)

lemma safe_vol_audio_loop:
  "safe_vol (lib\<lparr>audio_loop := x\<rparr>) clip level = safe_vol lib clip level"
  by (simp add: safe_vol_def methods_audio_loop split: option.splits)

lemma merge_clip_audio_loop:
  "merge_clip (lib\<lparr>audio_loop := x\<rparr>) self v oa music = merge_clip lib self v oa music"
  by (simp add: merge_clip_def safe_vol_audio_loop split: option.splits sum.splits)

lemma duration_fps_audio_loop:
  "duration_or_0 (lib\<lparr>audio_loop := x\<rparr>) v = duration_or_0 lib v"
  "fps_or_25 (lib\<lparr>audio_loop := x\<rparr>) v = fps_or_25 lib v"
  by (simp_all add: duration_or_0_def fps_or_25_def)

lemma audio_block_loop_raised:
  assumes "safe_vol lib music0 (music_level self) = Inr music1"
    and "audio_loop lib = Some loop"
    and "loop music1 (duration_or_0 lib v) = Inl e"
  shows "audio_block (lib\<lparr>audio_loop := None\<rparr>) self v music0 = audio_block lib self v music0"
  using assms
  by (simp add: audio_block_def safe_vol_audio_loop merge_clip_audio_loop loop_music_def
      duration_fps_audio_loop split: sum.splits)

lemma video_block_loop_raised:
  assumes "AudioFileClip lib (audio_path self) = Inr music0"
    and "safe_vol lib music0 (music_level self) = Inr music1"
    and "audio_loop lib = Some loop"
    and "loop music1 (duration_or_0 lib v) = Inl e"
  shows "video_block (lib\<lparr>audio_loop := None\<rparr>) self v = video_block lib self v"
  using assms audio_block_loop_raised [OF assms(2-4)]
  by (simp add: video_block_def)

lemma run_writes_and_finishes:
  assumes "engine \<noteq> ''disabled''"
    and "VideoFileClip lib (video_path self) = Inr v"
    and "AudioFileClip lib (audio_path self) = Inr loaded"
    and "safe_vol lib loaded (music_level self) = Inr scaled"
    and "merge_clip lib self v (audio lib v) (loop_music lib (duration_or_0 lib v) scaled)
           = Inr merged"
    and "write_videofile lib merged (output_path self) (fps_or_25 lib v) = None"
    and "audio_exit lib loaded = None"
    and "video_exit lib v = None"
  shows "run lib engine self =
     [Progress 5, LoadVideo (video_path self), Progress 20, LoadAudio (audio_path self),
      Progress 55, WriteVideofile merged (output_path self) (fps_or_25 lib v),
      Progress 100, Finished (output_path self)]"
  using assms
  by (simp add: run_def try_block_def video_block_def audio_block_def leave_with_def)

text \<open>
  Claim C5. Take a job whose engine is there, whose video and music load, whose music
  volume is adjusted, and whose video has a known positive duration. The music the job
  goes on with is what the looping effect returned for that duration when the effect is
  there and returns (at least that long when the effect keeps its contract), and the
  adjusted music as it was when the effect is absent or raises. That music is what the
  written clip is mixed from, and when the stages after the loop return the job
  finishes; a run in which the effect raised is the same run as with the effect absent.
\<close>

theorem looping_best_effort:
  assumes "engine \<noteq> ''disabled''"
    and "VideoFileClip lib (video_path self) = Inr v"
    and "duration lib v = Some d" and "0 < d"
    and "AudioFileClip lib (audio_path self) = Inr loaded"
    and "safe_vol lib loaded (music_level self) = Inr scaled"
  shows "\<exists>used.
      (\<forall>loop looped. audio_loop lib = Some loop \<and> loop scaled d = Inr looped \<longrightarrow>
          used = looped \<and> (loop_contract lib \<longrightarrow> d \<le> clip_duration lib used))
    \<and> (audio_loop lib = None \<or> (\<exists>loop e. audio_loop lib = Some loop \<and> loop scaled d = Inl e)
          \<longrightarrow> used = scaled)
    \<and> (\<forall>merged out f. WriteVideofile merged out f \<in> set (run lib engine self) \<longleftrightarrow>
          out = output_path self \<and> f = fps_or_25 lib v
          \<and> (if duck self \<and> audio lib v \<noteq> None
              then \<exists>oa bed mixed. audio lib v = Some oa
                     \<and> safe_vol lib oa (original_level self) = Inr bed
                     \<and> CompositeAudioClip lib [bed, used] = Inr mixed
                     \<and> with_audio lib v mixed = Inr merged
              else with_audio lib v used = Inr merged))
    \<and> (\<forall>merged.
          (if duck self \<and> audio lib v \<noteq> None
           then \<exists>oa bed mixed. audio lib v = Some oa
                  \<and> safe_vol lib oa (original_level self) = Inr bed
                  \<and> CompositeAudioClip lib [bed, used] = Inr mixed
                  \<and> with_audio lib v mixed = Inr merged
           else with_audio lib v used = Inr merged)
          \<and> write_videofile lib merged (output_path self) (fps_or_25 lib v) = None
          \<and> audio_exit lib loaded = None \<and> video_exit lib v = None \<longrightarrow>
          run lib engine self =
            [Progress 5, LoadVideo (video_path self), Progress 20, LoadAudio (audio_path self),
             Progress 55, WriteVideofile merged (output_path self) (fps_or_25 lib v),
             Progress 100, Finished (output_path self)])
    \<and> (\<forall>loop e. audio_loop lib = Some loop \<and> loop scaled d = Inl e \<longrightarrow>
          run lib engine self = run (lib\<lparr>audio_loop := None\<rparr>) engine self)"
proof -
  let ?used = "loop_music lib (duration_or_0 lib v) scaled"
  have dur: "duration_or_0 lib v = d"
    using assms(3,4) by (simp add: duration_or_0_def)
  have looped: "\<forall>loop looped. audio_loop lib = Some loop \<and> loop scaled d = Inr looped \<longrightarrow>
          ?used = looped \<and> (loop_contract lib \<longrightarrow> d \<le> clip_duration lib ?used)"
    using assms(4) by (auto simp add: dur loop_music_def loop_contract_def)
  have natural: "audio_loop lib = None
        \<or> (\<exists>loop e. audio_loop lib = Some loop \<and> loop scaled d = Inl e) \<longrightarrow> ?used = scaled"
    by (auto simp add: dur loop_music_def)
  have written: "\<forall>merged out f. WriteVideofile merged out f \<in> set (run lib engine self) \<longleftrightarrow>
          out = output_path self \<and> f = fps_or_25 lib v
          \<and> (if duck self \<and> audio lib v \<noteq> None
              then \<exists>oa bed mixed. audio lib v = Some oa
                     \<and> safe_vol lib oa (original_level self) = Inr bed
                     \<and> CompositeAudioClip lib [bed, ?used] = Inr mixed
                     \<and> with_audio lib v mixed = Inr merged
              else with_audio lib v ?used = Inr merged)"
    unfolding write_in_run merge_clip_cases using assms(1,2,5,6) by auto
  have finishes: "\<forall>merged.
          (if duck self \<and> audio lib v \<noteq> None
           then \<exists>oa bed mixed. audio lib v = Some oa
                  \<and> safe_vol lib oa (original_level self) = Inr bed
                  \<and> CompositeAudioClip lib [bed, ?used] = Inr mixed
                  \<and> with_audio lib v mixed = Inr merged
           else with_audio lib v ?used = Inr merged)
          \<and> write_videofile lib merged (output_path self) (fps_or_25 lib v) = None
          \<and> audio_exit lib loaded = None \<and> video_exit lib v = None \<longrightarrow>
          run lib engine self =
            [Progress 5, LoadVideo (video_path self), Progress 20, LoadAudio (audio_path self),
             Progress 55, WriteVideofile merged (output_path self) (fps_or_25 lib v),
             Progress 100, Finished (output_path self)]"
    using run_writes_and_finishes [OF assms(1,2,5,6)]
    unfolding merge_clip_cases by blast
  have absent: "\<forall>loop e. audio_loop lib = Some loop \<and> loop scaled d = Inl e \<longrightarrow>
          run lib engine self = run (lib\<lparr>audio_loop := None\<rparr>) engine self"
    using video_block_loop_raised [of lib self loaded scaled _ v] assms(2,5,6)
    by (auto simp add: dur run_def try_block_def)
  from looped natural written finishes absent show ?thesis
    by (intro exI [of _ ?used] conjI)
qed

theorem looping_best_effort_witness:
  "run moviepy_1 ''system-ffmpeg'' (request ''video.mp4'' False) =
     [Progress 5, LoadVideo ''video.mp4'', Progress 20, LoadAudio ''music.mp3'', Progress 55,
      WriteVideofile
        (WithAudio (VideoFile ''video.mp4'')
           (AudioLoop (Volumex (AudioFile ''music.mp3'') (8/10)) 10)) ''out.mp4'' 30,
      Progress 100, Finished ''out.mp4'']
   \<and> 10 \<le> clip_duration moviepy_1 (AudioLoop (Volumex (AudioFile ''music.mp3'') (8/10)) 10)
   \<and> run moviepy_loop_raises ''system-ffmpeg'' (request ''video.mp4'' False) =
     [Progress 5, LoadVideo ''video.mp4'', Progress 20, LoadAudio ''music.mp3'', Progress 55,
      WriteVideofile
        (WithAudio (VideoFile ''video.mp4'') (Volumex (AudioFile ''music.mp3'') (8/10)))
        ''out.mp4'' 30,
      Progress 100, Finished ''out.mp4'']"
proof -
  have contract: "loop_contract moviepy_1"
    by (auto simp add: loop_contract_def moviepy_1_def)
  have vol: "safe_vol moviepy_1 (AudioFile ''music.mp3'') (8/10)
      = Inr (Volumex (AudioFile ''music.mp3'') (8/10))"
    by (simp add: safe_vol_def method1_def moviepy_1_def)
  have vol': "safe_vol moviepy_loop_raises (AudioFile ''music.mp3'') (8/10)
      = Inr (Volumex (AudioFile ''music.mp3'') (8/10))"
    by (simp add: safe_vol_def method1_def moviepy_loop_raises_def moviepy_1_def)
  have "\<exists>used.
      (\<forall>loop looped. audio_loop moviepy_1 = Some loop
          \<and> loop (Volumex (AudioFile ''music.mp3'') (8/10)) 10 = Inr looped \<longrightarrow>
          used = looped \<and> (loop_contract moviepy_1 \<longrightarrow> 10 \<le> clip_duration moviepy_1 used))
    \<and> (\<forall>merged.
          with_audio moviepy_1 (VideoFile ''video.mp4'') used = Inr merged \<longrightarrow>
          run moviepy_1 ''system-ffmpeg'' (request ''video.mp4'' False) =
            [Progress 5, LoadVideo ''video.mp4'', Progress 20, LoadAudio ''music.mp3'',
             Progress 55, WriteVideofile merged ''out.mp4'' 30,
             Progress 100, Finished ''out.mp4''])"
    using looping_best_effort [where lib = moviepy_1 and engine = "''system-ffmpeg''"
        and self = "request ''video.mp4'' False" and v = "VideoFile ''video.mp4''" and d = 10
        and loaded = "AudioFile ''music.mp3''"
        and scaled = "Volumex (AudioFile ''music.mp3'') (8/10)"]
      vol
    by (simp add: request_def moviepy_1_def fps_or_25_def)
  then obtain used where
    u1: "\<forall>loop looped. audio_loop moviepy_1 = Some loop
          \<and> loop (Volumex (AudioFile ''music.mp3'') (8/10)) 10 = Inr looped \<longrightarrow>
          used = looped \<and> (loop_contract moviepy_1 \<longrightarrow> 10 \<le> clip_duration moviepy_1 used)"
    and u2: "\<forall>merged.
          with_audio moviepy_1 (VideoFile ''video.mp4'') used = Inr merged \<longrightarrow>
          run moviepy_1 ''system-ffmpeg'' (request ''video.mp4'' False) =
            [Progress 5, LoadVideo ''video.mp4'', Progress 20, LoadAudio ''music.mp3'',
             Progress 55, WriteVideofile merged ''out.mp4'' 30,
             Progress 100, Finished ''out.mp4'']"
    by blast
  from u1 contract
  have used: "used = AudioLoop (Volumex (AudioFile ''music.mp3'') (8/10)) 10"
    and long: "10 \<le> clip_duration moviepy_1 used"
    by (simp_all add: moviepy_1_def)
  from u2 used have first: "run moviepy_1 ''system-ffmpeg'' (request ''video.mp4'' False) =
     [Progress 5, LoadVideo ''video.mp4'', Progress 20, LoadAudio ''music.mp3'', Progress 55,
      WriteVideofile
        (WithAudio (VideoFile ''video.mp4'')
           (AudioLoop (Volumex (AudioFile ''music.mp3'') (8/10)) 10)) ''out.mp4'' 30,
      Progress 100, Finished ''out.mp4'']"
    by (simp add: moviepy_1_def)
  have "\<exists>used.
      used = Volumex (AudioFile ''music.mp3'') (8/10)
    \<and> (\<forall>merged.
          with_audio moviepy_loop_raises (VideoFile ''video.mp4'') used = Inr merged \<longrightarrow>
          run moviepy_loop_raises ''system-ffmpeg'' (request ''video.mp4'' False) =
            [Progress 5, LoadVideo ''video.mp4'', Progress 20, LoadAudio ''music.mp3'',
             Progress 55, WriteVideofile merged ''out.mp4'' 30,
             Progress 100, Finished ''out.mp4''])"
    using looping_best_effort [where lib = moviepy_loop_raises
        and engine = "''system-ffmpeg''"
        and self = "request ''video.mp4'' False" and v = "VideoFile ''video.mp4''" and d = 10
        and loaded = "AudioFile ''music.mp3''"
        and scaled = "Volumex (AudioFile ''music.mp3'') (8/10)"]
      vol'
    by (simp add: request_def moviepy_loop_raises_def moviepy_1_def fps_or_25_def)
  then have second: "run moviepy_loop_raises ''system-ffmpeg'' (request ''video.mp4'' False) =
     [Progress 5, LoadVideo ''video.mp4'', Progress 20, LoadAudio ''music.mp3'', Progress 55,
      WriteVideofile
        (WithAudio (VideoFile ''video.mp4'') (Volumex (AudioFile ''music.mp3'') (8/10)))
        ''out.mp4'' 30,
      Progress 100, Finished ''out.mp4'']"
    by (simp add: moviepy_loop_raises_def moviepy_1_def)
  from first second long used show ?thesis by simp
qed

subsection \<open>The FFmpeg locator\<close>

text \<open>
  The locator by itself (lines 27-64). A system FFmpeg on the search path is taken
  first: the engine state becomes \<open>system-ffmpeg\<close> and its path is returned, whatever
  the bundled copy is. Only when the search finds nothing is the bundled copy tried, and
  taken when its path exists. When both fail the engine state is \<open>disabled\<close> and the
  exception is kept as a message in \<open>FFMPEG_ERROR\<close>.
\<close>

lemma locator_order:
  "(shutil_which os = Some p \<and> p \<noteq> [] \<longrightarrow>
      ensure_ffmpeg_available os = (''system-ffmpeg'', Inr p)
      \<and> ENGINE (module_load os environ) = ''system-ffmpeg'')
   \<and> (\<not> truthy (shutil_which os) \<and> get_ffmpeg_exe os = Inr q \<and> os_path_exists os q \<longrightarrow>
      ensure_ffmpeg_available os = (''bundled-ffmpeg'', Inr q)
      \<and> ENGINE (module_load os environ) = ''bundled-ffmpeg'')
   \<and> (\<not> truthy (shutil_which os)
        \<and> (\<forall>q. get_ffmpeg_exe os = Inr q \<longrightarrow> \<not> os_path_exists os q) \<longrightarrow>
      ensure_ffmpeg_available os = no_ffmpeg_found
      \<and> module_load os environ =
          \<lparr>ENGINE = ''disabled'',
           FFMPEG_ERROR = Some
             ''No FFmpeg executable found. Install FFmpeg or keep 'imageio-ffmpeg' installed.'',
           IMAGEIO_FFMPEG_EXE = environ\<rparr>)"
proof (intro conjI impI)
  assume "shutil_which os = Some p \<and> p \<noteq> []"
  then show "ensure_ffmpeg_available os = (''system-ffmpeg'', Inr p)"
    by (simp add: ensure_ffmpeg_available_def)
  then show "ENGINE (module_load os environ) = ''system-ffmpeg''"
    by (simp add: module_load_def)
next
  assume a: "\<not> truthy (shutil_which os) \<and> get_ffmpeg_exe os = Inr q \<and> os_path_exists os q"
  then have "ensure_ffmpeg_available os = bundled_ffmpeg os"
    by (cases "shutil_which os") (simp_all add: ensure_ffmpeg_available_def)
  with a show "ensure_ffmpeg_available os = (''bundled-ffmpeg'', Inr q)"
    by (simp add: bundled_ffmpeg_def)
  then show "ENGINE (module_load os environ) = ''bundled-ffmpeg''"
    by (simp add: module_load_def)
next
  assume a: "\<not> truthy (shutil_which os)
        \<and> (\<forall>q. get_ffmpeg_exe os = Inr q \<longrightarrow> \<not> os_path_exists os q)"
  then have "ensure_ffmpeg_available os = bundled_ffmpeg os"
    by (cases "shutil_which os") (simp_all add: ensure_ffmpeg_available_def)
  with a show "ensure_ffmpeg_available os = no_ffmpeg_found"
    by (simp add: bundled_ffmpeg_def split: sum.splits)
  then show "module_load os environ =
          \<lparr>ENGINE = ''disabled'',
           FFMPEG_ERROR = Some
             ''No FFmpeg executable found. Install FFmpeg or keep 'imageio-ffmpeg' installed.'',
           IMAGEIO_FFMPEG_EXE = environ\<rparr>"
    by (simp add: module_load_def no_ffmpeg_found_def)
qed

text \<open>
  Claim C3 adds that, when both fail, the application still starts, in degraded mode.
  The program prepares for that: lines 61-64 catch the locator's exception, the window
  warns when the engine is disabled and keeps the merge button off. But the import of
  MoviePy on line 67 is outside that \<open>try\<close>. On a machine with no FFmpeg at all the
  locator reports \<open>disabled\<close>, and the import then raises, which ends the loading of
  the module before any window exists.
\<close>

theorem module_load_aborts_without_ffmpeg:
  "ensure_ffmpeg_available os_none = no_ffmpeg_found
   \<and> ENGINE (module_load os_none None) = ''disabled''
   \<and> module_body os_none None (import_moviepy_2 os_none)
       = Inl (RuntimeError ''No ffmpeg exe could be found.'')"
  by (simp add: module_body_def import_moviepy_2_def module_load_def
      ensure_ffmpeg_available_def bundled_ffmpeg_def no_ffmpeg_found_def os_none_def)

subsection \<open>The volume adapter at level 1\<close>

lemma scale_frames_one: "scale_frames 1 gf = gf"
  by (simp add: scale_frames_def fun_eq_iff)

lemma contract_method1:
  assumes "scaling_contract lib" and "method1 lib clip level = Some c"
  shows "get_frame lib c = scale_frames level (get_frame lib clip)"
proof -
  from assms(2) obtain m where m: "clip_volumex lib clip = Some m" "m level = Inr c"
    by (auto simp add: method1_def split: option.splits sum.splits)
  from assms(1) have "\<forall>clip m level c. clip_volumex lib clip = Some m \<and> m level = Inr c \<longrightarrow>
          get_frame lib c = scale_frames level (get_frame lib clip)"
    unfolding scaling_contract_def by (rule conjunct1)
  with m show ?thesis by blast
qed

lemma contract_method2:
  assumes "scaling_contract lib" and "method2 lib clip level = Some c"
  shows "get_frame lib c = scale_frames level (get_frame lib clip)"
proof -
  from assms(2) obtain f where f: "volumex lib = Some f" "clip_fx lib clip f level = Inr c"
    by (auto simp add: method2_def split: option.splits sum.splits)
  from assms(1) have "\<forall>clip f level c. volumex lib = Some f \<and> clip_fx lib clip f level = Inr c \<longrightarrow>
          get_frame lib c = scale_frames level (get_frame lib clip)"
    unfolding scaling_contract_def by (rule conjunct1 [OF conjunct2])
  with f show ?thesis by blast
qed

lemma contract_method3:
  assumes "scaling_contract lib" and "method3 lib clip level = Some c"
  shows "get_frame lib c = scale_frames level (get_frame lib clip)"
proof -
  from assms(2) obtain m where m: "clip_fl lib clip = Some m" "m (scale_frames level) = Inr c"
    by (auto simp add: method3_def split: option.splits sum.splits)
  from assms(1) have "\<forall>clip m tr c. clip_fl lib clip = Some m \<and> m tr = Inr c \<longrightarrow>
          get_frame lib c = tr (get_frame lib clip)"
    unfolding scaling_contract_def by (rule conjunct2 [OF conjunct2])
  with m show ?thesis by blast
qed

text \<open>
  Claim C7. On a build whose scaling mechanisms keep their contract, \<open>_safe_vol\<close> at
  level 1 always returns a clip, never raises, and the clip has the frames of the one
  it was given at every time.
\<close>

theorem safe_vol_level_one:
  assumes "scaling_contract lib"
  shows "\<exists>c. safe_vol lib clip 1 = Inr c \<and> (\<forall>t. get_frame lib c t = get_frame lib clip t)"
proof (cases "method1 lib clip 1")
  case (Some c)
  with contract_method1 [OF assms Some] show ?thesis
    by (simp add: safe_vol_def scale_frames_one)
next
  case m1: None
  show ?thesis
  proof (cases "method2 lib clip 1")
    case (Some c)
    with m1 contract_method2 [OF assms Some] show ?thesis
      by (simp add: safe_vol_def scale_frames_one)
  next
    case m2: None
    show ?thesis
    proof (cases "method3 lib clip 1")
      case (Some c)
      with m1 m2 contract_method3 [OF assms Some] show ?thesis
        by (simp add: safe_vol_def scale_frames_one)
    next
      case None
      with m1 m2 show ?thesis
        by (simp add: safe_vol_def)
    qed
  qed
qed

theorem safe_vol_level_one_witness:
  "scaling_contract moviepy_1
   \<and> (\<exists>c. safe_vol moviepy_1 (AudioFile ''music.mp3'') 1 = Inr c
        \<and> (\<forall>t. get_frame moviepy_1 c t = [t, - t]))"
proof -
  have contract: "scaling_contract moviepy_1"
    by (auto simp add: scaling_contract_def moviepy_1_def)
  from safe_vol_level_one [OF contract, of "AudioFile ''music.mp3''"] contract
  show ?thesis
    by (simp add: moviepy_1_def)
qed

subsection \<open>The main window\<close>

lemma lower_mp4: "lower (chosen @ ''.mp4'') = lower chosen @ ''.mp4''"
  by (simp add: lower_def lower_char_def)

lemma with_mp4_endswith: "endswith (lower (with_mp4 chosen)) ''.mp4''"
  by (simp add: with_mp4_def endswith_def lower_mp4 suffix_def)

text \<open>
  Claim C9. \<open>merge_and_preview\<close> starts at most one worker, exactly when both files are
  picked, the engine is not disabled and the save dialog returned a name; the output
  path it hands to the worker is the chosen name if that already ends in \<open>.mp4\<close>
  (compared in lower case, as the program does) and the chosen name with \<open>.mp4\<close>
  appended otherwise, so it always ends in \<open>.mp4\<close> up to case.
\<close>

theorem merge_job_output_is_mp4:
  "\<exists>started. threads (merge_and_preview engine self chosen) = threads self @ started
     \<and> length started =
         (if truthy (state_video_path self) \<and> truthy (state_audio_path self)
             \<and> engine \<noteq> ''disabled'' \<and> chosen \<noteq> [] then 1 else 0)
     \<and> (\<forall>w \<in> set started.
           output_path w =
             (if endswith (lower chosen) ''.mp4'' then chosen else chosen @ ''.mp4'')
           \<and> endswith (lower (output_path w)) ''.mp4'')"
proof (cases "truthy (state_video_path self) \<and> truthy (state_audio_path self)
             \<and> engine \<noteq> ''disabled'' \<and> chosen \<noteq> []")
  case True
  then obtain video music where p: "state_video_path self = Some video" "video \<noteq> []"
      "state_audio_path self = Some music" "music \<noteq> []"
    by (cases "state_video_path self"; cases "state_audio_path self") auto
  let ?w = "\<lparr>video_path = video, audio_path = music, output_path = with_mp4 chosen,
             music_level = real_of_int (music_slider self) / 100,
             original_level = real_of_int (original_slider self) / 100,
             duck = keep_original_chk self\<rparr>"
  from True p have "threads (merge_and_preview engine self chosen) = threads self @ [?w]"
    by (simp add: merge_and_preview_def)
  moreover have "output_path ?w =
      (if endswith (lower chosen) ''.mp4'' then chosen else chosen @ ''.mp4'')"
    by (simp add: with_mp4_def)
  moreover have "endswith (lower (output_path ?w)) ''.mp4''"
    by (simp add: with_mp4_endswith)
  ultimately show ?thesis using True
    by (intro exI [of _ "[?w]"]) simp
next
  case False
  then have "threads (merge_and_preview engine self chosen) = threads self"
    by (cases "state_video_path self"; cases "state_audio_path self")
       (auto simp add: merge_and_preview_def)
  with False show ?thesis
    by (intro exI [of _ "[]"]) simp
qed

theorem merge_job_output_is_mp4_witness:
  "map output_path (threads (merge_and_preview ''system-ffmpeg'' window_ready ''out''))
     = [''out.mp4'']
   \<and> map output_path (threads (merge_and_preview ''system-ffmpeg'' window_ready ''Out.MP4''))
     = [''Out.MP4'']"
proof -
  have ready: "window_ready = MainWindow_init\<lparr>state_video_path := Some ''a.mp4'',
      state_audio_path := Some ''m.mp3'', merge_btn := True\<rparr>"
    by (simp add: window_ready_def gui_run_def pick_video_def pick_audio_def
        enable_merge_if_ready_def MainWindow_init_def)
  have low: "endswith (lower ''Out.MP4'') ''.mp4''" "\<not> endswith (lower ''out'') ''.mp4''"
    by (simp_all add: endswith_def lower_def lower_char_def suffix_def)
  from merge_job_output_is_mp4 [of "''system-ffmpeg''" window_ready "''out''"]
    merge_job_output_is_mp4 [of "''system-ffmpeg''" window_ready "''Out.MP4''"]
  show ?thesis
    using low by (auto simp add: ready MainWindow_init_def length_Suc_conv)
qed

text \<open>
  Claim C8 says that the merge button stays disabled from the start of a job until its
  terminal signal is delivered, so that no second job can start meanwhile. The program
  disables the button in \<open>merge_and_preview\<close> and enables it again in
  \<open>on_merge_finished\<close> and \<open>on_merge_failed\<close>, but \<open>pick_video\<close> and \<open>pick_audio\<close> call
  \<open>enable_merge_if_ready\<close> too, which looks at the two paths and the engine only. After
  picking both files and starting a merge, one worker runs and the button is disabled;
  picking another video while it runs enables the button again, and the next click
  starts a second worker beside the first.
\<close>

theorem second_merge_while_first_runs:
  "length (threads (gui_run ''system-ffmpeg'' MainWindow_init
      [PickVideo ''a.mp4'', PickAudio ''m.mp3'', ClickMerge ''out.mp4''])) = 1
   \<and> merge_btn (gui_run ''system-ffmpeg'' MainWindow_init
      [PickVideo ''a.mp4'', PickAudio ''m.mp3'', ClickMerge ''out.mp4'']) = False
   \<and> merge_btn (gui_run ''system-ffmpeg'' MainWindow_init
      [PickVideo ''a.mp4'', PickAudio ''m.mp3'', ClickMerge ''out.mp4'',
       PickVideo ''b.mp4'']) = True
   \<and> length (threads (gui_run ''system-ffmpeg'' MainWindow_init
      [PickVideo ''a.mp4'', PickAudio ''m.mp3'', ClickMerge ''out.mp4'',
       PickVideo ''b.mp4'', ClickMerge ''out2.mp4''])) = 2"
  by (simp add: gui_run_def pick_video_def pick_audio_def enable_merge_if_ready_def
      merge_and_preview_def MainWindow_init_def)

end
